theory Spec2Isabelle
  imports Complex_Main "HOL-Library.Char_ord" "HOL-Library.List_Lexorder"
    "HOL-Library.Product_Lexorder" "HOL-Library.Sublist"
begin

section \<open>Tables\<close>

text \<open>
  The dashboard \<^verbatim>\<open>app.py\<close> works on one pandas DataFrame. A frame is modelled column by
  column, as pandas stores it: the row labels (\<open>index\<close>) and the columns in their order,
  each a label with its cells. Duplicated labels are possible, so the columns are an
  association list. A cell is a null (NaN, NaT, None), a string, a number or a calendar
  date (year, month, day). Numbers are exact rationals: the rounding of float64 is not
  part of the model.
\<close>

type_synonym date = "nat \<times> nat \<times> nat"

datatype cell = NA | Str string | Num rat | Ts date

record frame =
  index :: "nat list"
  cols :: "(string \<times> cell list) list"

datatype key = Label string | Labels "string list"

datatype error = KeyError key | OSError

definition column_names :: "frame \<Rightarrow> string list" where
  "column_names df = map fst (cols df)"

text \<open>A frame is rectangular when every column has one cell for each row label.\<close>

definition rectangular :: "frame \<Rightarrow> bool" where
  "rectangular df = list_all (\<lambda>(n, cs). length cs = length (index df)) (cols df)"

text \<open>\<^verbatim>\<open>df.columns = names\<close>: the labels are replaced position by position.\<close>

definition set_columns :: "frame \<Rightarrow> string list \<Rightarrow> frame" where
  "set_columns df names = df\<lparr>cols := map2 (\<lambda>n (_, cs). (n, cs)) names (cols df)\<rparr>"

subsection \<open>Strings\<close>

text \<open>
  \<^verbatim>\<open>str.strip()\<close> removes leading and trailing whitespace. The whitespace characters
  modelled are the ASCII ones of Python (space, tab, line feed, vertical tab, form feed,
  carriage return and the separators 0x1C to 0x1F).
\<close>

definition is_space :: "char \<Rightarrow> bool" where
  "is_space c = (c = CHR '' '' \<or> (let n = (of_char c :: nat) in (9 \<le> n \<and> n \<le> 13) \<or> (28 \<le> n \<and> n \<le> 31)))"

definition strip :: "string \<Rightarrow> string" where
  "strip s = rev (dropWhile is_space (rev (dropWhile is_space s)))"

text \<open>\<^verbatim>\<open>sub in s\<close> on strings: \<open>sub\<close> occurs in \<open>s\<close> as a contiguous substring.\<close>

fun contains :: "string \<Rightarrow> string \<Rightarrow> bool" where
  "contains sub [] = (sub = [])"
| "contains sub (c # cs) = (take (length sub) (c # cs) = sub \<or> contains sub cs)"

subsection \<open>Column selection and renaming\<close>

text \<open>
  \<^verbatim>\<open>Index.duplicated()\<close> (keep = first): a label is marked when it occurred at an earlier
  position.
\<close>

fun duplicated_from :: "string list \<Rightarrow> string list \<Rightarrow> bool list" where
  "duplicated_from seen [] = []"
| "duplicated_from seen (n # ns) = (n \<in> set seen) # duplicated_from (n # seen) ns"

definition duplicated :: "string list \<Rightarrow> bool list" where
  "duplicated names = duplicated_from [] names"

text \<open>Selection by a boolean mask, of columns (\<^verbatim>\<open>df.loc[:, mask]\<close>) and of rows.\<close>

definition select :: "bool list \<Rightarrow> 'a list \<Rightarrow> 'a list" where
  "select keep xs = map snd (filter fst (zip keep xs))"

definition loc_columns :: "frame \<Rightarrow> bool list \<Rightarrow> frame" where
  "loc_columns df keep = df\<lparr>cols := select keep (cols df)\<rparr>"

text \<open>\<^verbatim>\<open>df.rename(columns={old: new})\<close>: every column labelled \<open>old\<close> is relabelled.\<close>

definition rename :: "frame \<Rightarrow> string \<Rightarrow> string \<Rightarrow> frame" where
  "rename df old new = df\<lparr>cols := map (\<lambda>(n, cs). (if n = old then new else n, cs)) (cols df)\<rparr>"

text \<open>
  \<^verbatim>\<open>df[name]\<close> raises KeyError for a label that is absent; \<^verbatim>\<open>df[name] = values\<close>
  replaces the cells of the column labelled \<open>name\<close>, or appends a new column.
\<close>

definition getitem :: "frame \<Rightarrow> string \<Rightarrow> error + cell list" where
  "getitem df name = (case map_of (cols df) name of
      None \<Rightarrow> Inl (KeyError (Label name))
    | Some cs \<Rightarrow> Inr cs)"

definition setitem :: "frame \<Rightarrow> string \<Rightarrow> cell list \<Rightarrow> frame" where
  "setitem df name vs =
     (if name \<in> set (column_names df)
      then df\<lparr>cols := map (\<lambda>(n, cs). (n, if n = name then vs else cs)) (cols df)\<rparr>
      else df\<lparr>cols := cols df @ [(name, vs)]\<rparr>)"

subsection \<open>Dates\<close>

text \<open>
  \<^verbatim>\<open>pd.to_datetime(s, format="%d-%m-%Y", errors="coerce")\<close>. A string has to match the
  format as a whole: the day is \<^verbatim>\<open>3[0-1]|[1-2]\d|0[1-9]|[1-9]| [1-9]\<close>, the month
  \<^verbatim>\<open>1[0-2]|0[1-9]|[1-9]\<close>, the year four digits, with \<^verbatim>\<open>-\<close> between them, and the
  three numbers have to be a date of the calendar. Everything else is coerced to NaT.
  Digits are the ASCII digits. The range of the library's nanosecond timestamps, which
  depends on its version, is not modelled.
\<close>

definition digit :: "char \<Rightarrow> nat option" where
  "digit c = (let n = (of_char c :: nat) in if 48 \<le> n \<and> n \<le> 57 then Some (n - 48) else None)"

fun day_field :: "string \<Rightarrow> nat option" where
  "day_field [a] = (case digit a of Some x \<Rightarrow> (if 1 \<le> x then Some x else None) | None \<Rightarrow> None)"
| "day_field [a, b] =
     (case digit b of
        None \<Rightarrow> None
      | Some y \<Rightarrow>
         (case digit a of
            Some x \<Rightarrow>
              (if x = 3 \<and> y \<le> 1 then Some (30 + y)
               else if x = 1 \<or> x = 2 then Some (10 * x + y)
               else if x = 0 \<and> 1 \<le> y then Some y
               else None)
          | None \<Rightarrow> (if a = CHR '' '' \<and> 1 \<le> y then Some y else None)))"
| "day_field _ = None"

fun month_field :: "string \<Rightarrow> nat option" where
  "month_field [a] = (case digit a of Some x \<Rightarrow> (if 1 \<le> x then Some x else None) | None \<Rightarrow> None)"
| "month_field [a, b] =
     (case (digit a, digit b) of
        (Some x, Some y) \<Rightarrow>
          (if x = 1 \<and> y \<le> 2 then Some (10 + y)
           else if x = 0 \<and> 1 \<le> y then Some y
           else None)
      | _ \<Rightarrow> None)"
| "month_field _ = None"

fun year_field :: "string \<Rightarrow> nat option" where
  "year_field [a, b, c, d] =
     (case (digit a, digit b, digit c, digit d) of
        (Some w, Some x, Some y, Some z) \<Rightarrow> Some (1000 * w + 100 * x + 10 * y + z)
      | _ \<Rightarrow> None)"
| "year_field _ = None"

definition is_leap :: "nat \<Rightarrow> bool" where
  "is_leap y = (y mod 4 = 0 \<and> (y mod 100 \<noteq> 0 \<or> y mod 400 = 0))"

definition days_in_month :: "nat \<Rightarrow> nat \<Rightarrow> nat" where
  "days_in_month y m =
     (if m = 2 then (if is_leap y then 29 else 28)
      else if m = 4 \<or> m = 6 \<or> m = 9 \<or> m = 11 then 30
      else 31)"

definition valid_date :: "date \<Rightarrow> bool" where
  "valid_date ymd = (case ymd of (y, m, d) \<Rightarrow>
     1 \<le> y \<and> y \<le> 9999 \<and> 1 \<le> m \<and> m \<le> 12 \<and> 1 \<le> d \<and> d \<le> days_in_month y m)"

text \<open>The text before the first \<open>sep\<close>, and the text after it (None without a \<open>sep\<close>).\<close>

definition partition_at :: "char \<Rightarrow> string \<Rightarrow> (string \<times> string) option" where
  "partition_at sep s =
     (case dropWhile (\<lambda>c. c \<noteq> sep) s of
        [] \<Rightarrow> None
      | _ # rest \<Rightarrow> Some (takeWhile (\<lambda>c. c \<noteq> sep) s, rest))"

definition strptime_dmy :: "string \<Rightarrow> date option" where
  "strptime_dmy s =
     (case partition_at CHR ''-'' s of
        None \<Rightarrow> None
      | Some (ds, rest) \<Rightarrow>
         (case partition_at CHR ''-'' rest of
            None \<Rightarrow> None
          | Some (ms, ys) \<Rightarrow>
             (case (day_field ds, month_field ms, year_field ys) of
                (Some d, Some m, Some y) \<Rightarrow> (if valid_date (y, m, d) then Some (y, m, d) else None)
              | _ \<Rightarrow> None)))"

text \<open>
  A number in the Date column is formatted before it is matched, and the text of a
  number never matches the format; a value that is a date already is kept.
\<close>

fun to_datetime_cell :: "cell \<Rightarrow> cell" where
  "to_datetime_cell NA = NA"
| "to_datetime_cell (Str s) = (case strptime_dmy s of Some d \<Rightarrow> Ts d | None \<Rightarrow> NA)"
| "to_datetime_cell (Num r) = NA"
| "to_datetime_cell (Ts d) = Ts d"

definition to_datetime :: "cell list \<Rightarrow> cell list" where
  "to_datetime cs = map to_datetime_cell cs"

subsection \<open>Rows with nulls, numbers, row labels\<close>

text \<open>
  \<^verbatim>\<open>df.dropna(subset=labels)\<close>: KeyError for labels that are no columns; otherwise the
  rows with a null in one of the columns \<open>labels\<close> are removed from every column and
  from the index.
\<close>

definition notna :: "cell list \<Rightarrow> bool list" where
  "notna cs = map (\<lambda>c. c \<noteq> NA) cs"

definition column :: "frame \<Rightarrow> string \<Rightarrow> cell list" where
  "column df name = (case map_of (cols df) name of None \<Rightarrow> [] | Some cs \<Rightarrow> cs)"

definition row_mask :: "frame \<Rightarrow> string list \<Rightarrow> bool list" where
  "row_mask df labels =
     foldr (\<lambda>l m. map2 (\<and>) (notna (column df l)) m) labels (replicate (length (index df)) True)"

definition dropna :: "frame \<Rightarrow> string list \<Rightarrow> error + frame" where
  "dropna df labels =
     (case filter (\<lambda>l. l \<notin> set (column_names df)) labels of
        [] \<Rightarrow> Inr \<lparr>index = select (row_mask df labels) (index df),
                  cols = map (\<lambda>(n, cs). (n, select (row_mask df labels) cs)) (cols df)\<rparr>
      | missing \<Rightarrow> Inl (KeyError (Labels missing)))"

text \<open>
  \<^verbatim>\<open>pd.to_numeric(s, errors="coerce")\<close>: a number stays, a null stays, and any other cell
  is converted by the library; \<open>num_of\<close> is that conversion, None where it fails, and the
  failure is coerced to NaN.
\<close>

fun to_numeric_cell :: "(cell \<Rightarrow> rat option) \<Rightarrow> cell \<Rightarrow> cell" where
  "to_numeric_cell num_of NA = NA"
| "to_numeric_cell num_of (Num r) = Num r"
| "to_numeric_cell num_of c = (case num_of c of Some r \<Rightarrow> Num r | None \<Rightarrow> NA)"

definition to_numeric :: "(cell \<Rightarrow> rat option) \<Rightarrow> cell list \<Rightarrow> cell list" where
  "to_numeric num_of cs = map (to_numeric_cell num_of) cs"

definition reset_index :: "frame \<Rightarrow> frame" where
  "reset_index df = df\<lparr>index := [0..<length (index df)]\<rparr>"

section \<open>Loading and cleaning\<close>

definition target :: string where
  "target = ''Estimated Unemployment Rate (%)''"

text \<open>
  Lines 24 to 29: the unemployment column gets its stable name. When no column is
  labelled \<open>target\<close>, the first label containing \<^verbatim>\<open>Unemployment Rate\<close> is renamed.
\<close>

definition name_target :: "frame \<Rightarrow> error + frame" where
  "name_target df =
     (if target \<notin> set (column_names df)
      then (case filter (contains ''Unemployment Rate'') (column_names df) of
              [] \<Rightarrow> Inl (KeyError (Label ''Unemployment column not found in CSV''))
            | m # _ \<Rightarrow> Inr (rename df m target))
      else Inr df)"

text \<open>
  Lines 20 and 21: the labels are stripped, and of the columns with the same label only
  the first is kept.
\<close>

definition tidy_columns :: "frame \<Rightarrow> frame" where
  "tidy_columns df =
     (let df1 = set_columns df (map strip (column_names df))
      in loc_columns df1 (map Not (duplicated (column_names df1))))"

text \<open>
  \<^verbatim>\<open>load_data\<close>; both branches of the version test have the same body. \<open>csv\<close> is what
  \<^verbatim>\<open>pd.read_csv\<close> gives for the file: an error, or the parsed frame with blank fields
  as nulls.
\<close>

definition load_data :: "(cell \<Rightarrow> rat option) \<Rightarrow> error + frame \<Rightarrow> error + frame" where
  "load_data num_of csv =
     (case csv of
        Inl e \<Rightarrow> Inl e
      | Inr df0 \<Rightarrow>
         (case name_target (tidy_columns df0) of
            Inl e \<Rightarrow> Inl e
          | Inr df \<Rightarrow>
             (case getitem df ''Date'' of
                Inl e \<Rightarrow> Inl e
              | Inr dates \<Rightarrow>
                 (case dropna (setitem df ''Date'' (to_datetime dates)) [''Region'', ''Date''] of
                    Inl e \<Rightarrow> Inl e
                  | Inr df' \<Rightarrow>
                     (case getitem df' target of
                        Inl e \<Rightarrow> Inl e
                      | Inr rates \<Rightarrow>
                         Inr (reset_index (setitem df' target (to_numeric num_of rates))))))))"



section \<open>Views\<close>

definition unemp_col :: string where
  "unemp_col = ''Estimated Unemployment Rate (%)''"

subsection \<open>Overall metrics\<close>








subsection \<open>The trend of the selected region\<close>

text \<open>
  \<^verbatim>\<open>df[df["Region"] == region]\<close>: the rows whose Region equals the selection. A null
  equals nothing, and the selection of an empty option list is None, which no cell
  equals.
\<close>

definition eq_mask :: "cell list \<Rightarrow> cell \<Rightarrow> bool list" where
  "eq_mask cs v = map (\<lambda>c. c \<noteq> NA \<and> c = v) cs"

definition rows_where :: "frame \<Rightarrow> bool list \<Rightarrow> frame" where
  "rows_where df keep =
     \<lparr>index = select keep (index df), cols = map (\<lambda>(n, cs). (n, select keep cs)) (cols df)\<rparr>"

definition region_df :: "frame \<Rightarrow> cell \<Rightarrow> error + frame" where
  "region_df df region =
     (case getitem df ''Region'' of
        Inl e \<Rightarrow> Inl e
      | Inr rs \<Rightarrow> Inr (rows_where df (eq_mask rs region)))"

definition empty :: "frame \<Rightarrow> bool" where
  "empty df = (index df = [] \<or> cols df = [])"

text \<open>
  A figure: the points of the line, the region of its title
  (\<^verbatim>\<open>f"Unemployment Trend - {region}"\<close>, the formatting left out), the markers option
  and the decorations. \<^verbatim>\<open>add_lockdown_vline\<close> adds a dashed red line and its label at
  \<open>date_str\<close>.
\<close>

datatype shape = Dashed_vline string

datatype annotation = Note string string

record figure =
  points :: "(cell \<times> cell) list"
  title_region :: cell
  markers :: bool
  shapes :: "shape list"
  annotations :: "annotation list"

definition add_lockdown_vline :: "figure \<Rightarrow> string \<Rightarrow> figure" where
  "add_lockdown_vline fig date_str =
     fig\<lparr>shapes := shapes fig @ [Dashed_vline date_str],
         annotations := annotations fig @ [Note date_str ''Lockdown start'']\<rparr>"

definition px_line :: "frame \<Rightarrow> string \<Rightarrow> string \<Rightarrow> cell \<Rightarrow> bool \<Rightarrow> error + figure" where
  "px_line df x y region mk =
     (case getitem df x of
        Inl e \<Rightarrow> Inl e
      | Inr xs \<Rightarrow>
         (case getitem df y of
            Inl e \<Rightarrow> Inl e
          | Inr ys \<Rightarrow>
             Inr \<lparr>points = zip xs ys, title_region = region, markers = mk,
                  shapes = [], annotations = []\<rparr>))"

datatype element = Subheader cell | Warning string | Plotly_chart figure

text \<open>Lines 106 and 149 to 162: what the page shows for the selected region.\<close>

definition region_trend :: "frame \<Rightarrow> cell \<Rightarrow> error + element list" where
  "region_trend df region =
     (case region_df df region of
        Inl e \<Rightarrow> Inl e
      | Inr rdf \<Rightarrow>
         (if empty rdf
          then Inr [Subheader region, Warning ''No data available for the selected region.'']
          else (case px_line rdf ''Date'' unemp_col region True of
                  Inl e \<Rightarrow> Inl e
                | Inr fig_region \<Rightarrow>
                   Inr [Subheader region,
                        Plotly_chart (add_lockdown_vline fig_region ''2020-03-01'')])))"

subsection \<open>Average by region\<close>






section \<open>Sample files\<close>

text \<open>
  Small parsed files in the shape of the dataset, for running the definitions: one
  whose header repeats Region and names the rate column differently, with a blank row,
  a date in another format and a rate that is no number; one without any rate column;
  one with the rate column under its name and a second rate-like column.
\<close>

definition sample_csv :: frame where
  "sample_csv =
     \<lparr>index = [0, 1, 2, 3],
      cols = [(''Region'', [Str ''Goa'', NA, Str ''Goa'', Str ''Delhi'']),
              ('' Date'', [Str ''01-03-2020'', NA, Str ''2020/03/01'', Str ''31-03-2020'']),
              (''Estimated Unemployment Rate (%) original'',
                 [Str ''5.5'', NA, Str ''3'', Str ''n/a'']),
              (''Unemployment Rate 2'', [Str ''1'', NA, Str ''2'', Str ''3'']),
              (''Region '', [Str ''West'', NA, Str ''West'', Str ''North''])]\<rparr>"

definition sample_num_of :: "cell \<Rightarrow> rat option" where
  "sample_num_of c =
     (if c = Str ''5.5'' then Some (11 / 2)
      else if c = Str ''1'' then Some 1
      else if c = Str ''2'' then Some 2
      else if c = Str ''3'' then Some 3
      else None)"

definition sample_no_rate :: frame where
  "sample_no_rate =
     \<lparr>index = [0],
      cols = [(''Region'', [Str ''Goa'']), (''Date'', [Str ''31-01-2020''])]\<rparr>"

definition sample_named :: frame where
  "sample_named =
     \<lparr>index = [0],
      cols = [(''Region'', [Str ''Goa'']), (''Date'', [Str ''31-01-2020'']),
              (''Old Unemployment Rate'', [Num 4]),
              (''Estimated Unemployment Rate (%)'', [Num 5])]\<rparr>"

text \<open>The table loaded from the first sample.\<close>

definition sample_table :: frame where
  "sample_table =
     \<lparr>index = [0, 1],
      cols = [(''Region'', [Str ''Goa'', Str ''Delhi'']),
              (''Date'', [Ts (2020, 3, 1), Ts (2020, 3, 31)]),
              (''Estimated Unemployment Rate (%)'', [Num (11 / 2), NA]),
              (''Unemployment Rate 2'', [Str ''1'', Str ''3''])]\<rparr>"

section \<open>Properties of the table operations\<close>

lemma select_simps [simp]:
  "select [] xs = []"
  "select bs [] = []"
  "select (b # bs) (x # xs) = (if b then x # select bs xs else select bs xs)"
  by (simp_all add: select_def)

lemma select_map: "select keep (map f xs) = map f (select keep xs)"
proof (induction keep arbitrary: xs)
  case Nil
  then show ?case by simp
next
  case (Cons b bs)
  then show ?case by (cases xs) simp_all
qed

lemma set_select_subset: "set (select keep xs) \<subseteq> set xs"
proof (induction keep arbitrary: xs)
  case Nil
  then show ?case by simp
next
  case (Cons b bs)
  then show ?case by (cases xs) auto
qed

lemma length_select_same:
  "length xs = length ys \<Longrightarrow> length (select keep xs) = length (select keep ys)"
proof (induction keep arbitrary: xs ys)
  case Nil
  then show ?case by simp
next
  case (Cons b bs)
  then show ?case by (cases xs; cases ys) simp_all
qed

lemma keep_first_set:
  "set (select (map Not (duplicated_from seen ns)) ns) = set ns - set seen"
  by (induction ns arbitrary: seen) auto

lemma keep_first_distinct:
  "distinct (select (map Not (duplicated_from seen ns)) ns)"
  by (induction ns arbitrary: seen) (auto simp: keep_first_set)

lemma keep_first_fst:
  "map fst (select (map Not (duplicated_from seen (map fst ps))) ps)
     = select (map Not (duplicated_from seen (map fst ps))) (map fst ps)"
  by (simp add: select_map)

lemma keep_first_map_of:
  "map_of (select (map Not (duplicated_from seen (map fst ps))) ps) k
     = (if k \<in> set seen then None else map_of ps k)"
proof (induction ps arbitrary: seen)
  case Nil
  then show ?case by simp
next
  case (Cons p ps)
  then show ?case by (cases p) auto
qed


lemma stripped_cols:
  "map2 (\<lambda>n (_, cs). (n, cs)) (map (f \<circ> fst) ps) ps = map (\<lambda>(n, cs). (f n, cs)) ps"
  by (induction ps) auto

lemma cols_set_columns:
  "cols (set_columns df (map f (column_names df))) = map (\<lambda>(n, cs). (f n, cs)) (cols df)"
  unfolding set_columns_def column_names_def by (simp add: stripped_cols)

lemma names_set_columns:
  "column_names (set_columns df (map f (column_names df))) = map f (column_names df)"
  unfolding column_names_def[of "set_columns _ _"] cols_set_columns
  by (simp add: column_names_def case_prod_unfold)

lemma cols_tidy_columns:
  "cols (tidy_columns df) =
     select (map Not (duplicated (map strip (column_names df))))
       (map (\<lambda>(n, cs). (strip n, cs)) (cols df))"
  by (simp add: tidy_columns_def loc_columns_def Let_def cols_set_columns names_set_columns)

lemma names_tidy_columns:
  "column_names (tidy_columns df) =
     select (map Not (duplicated (map strip (column_names df)))) (map strip (column_names df))"
  unfolding column_names_def[of "tidy_columns df"] cols_tidy_columns
  by (simp add: select_map[symmetric] column_names_def case_prod_unfold comp_def)

lemma distinct_tidy_columns: "distinct (column_names (tidy_columns df))"
  by (simp add: names_tidy_columns duplicated_def keep_first_distinct)


lemma map_of_tidy_columns:
  "map_of (cols (tidy_columns df)) k = map_of (map (\<lambda>(n, cs). (strip n, cs)) (cols df)) k"
proof -
  have "map strip (column_names df) = map fst (map (\<lambda>(n, cs). (strip n, cs)) (cols df))"
    by (simp add: column_names_def case_prod_unfold comp_def)
  then show ?thesis
    unfolding cols_tidy_columns duplicated_def by (simp only: keep_first_map_of) simp
qed


lemma getitem_Inr: "getitem df n = Inr cs \<longleftrightarrow> map_of (cols df) n = Some cs"
  by (simp add: getitem_def split: option.splits)

lemma map_of_names: "map_of (cols df) n = Some cs \<Longrightarrow> n \<in> set (column_names df)"
  unfolding column_names_def by (force dest: map_of_SomeD)

lemma getitem_Inl:
  "getitem df n = Inl e \<longleftrightarrow> n \<notin> set (column_names df) \<and> e = KeyError (Label n)"
  by (auto simp: getitem_def column_names_def map_of_eq_None_iff split: option.splits
      dest: map_of_names[unfolded column_names_def])

lemma names_setitem:
  "n \<in> set (column_names df) \<Longrightarrow> column_names (setitem df n vs) = column_names df"
  by (simp add: setitem_def column_names_def case_prod_unfold comp_def)

lemma index_setitem: "index (setitem df n vs) = index df"
  by (simp add: setitem_def)

lemma cols_setitem:
  "n \<in> set (column_names df) \<Longrightarrow>
   cols (setitem df n vs) = map (\<lambda>(m, cs). (m, if m = n then vs else cs)) (cols df)"
  by (simp add: setitem_def)

lemma map_of_map_cols:
  "map_of (map (\<lambda>(m, cs). (m, f m cs)) ps) k = map_option (f k) (map_of ps k)"
  by (induction ps) auto

lemma dropna_two:
  "dropna df [a, b] = Inr df' \<longleftrightarrow>
     a \<in> set (column_names df) \<and> b \<in> set (column_names df) \<and>
     df' = \<lparr>index = select (row_mask df [a, b]) (index df),
            cols = map (\<lambda>(n, cs). (n, select (row_mask df [a, b]) cs)) (cols df)\<rparr>"
  by (auto simp: dropna_def split: list.splits)

lemma dropna_two_Inl:
  "dropna df [a, b] = Inl e \<Longrightarrow> a \<notin> set (column_names df) \<or> b \<notin> set (column_names df)"
  by (auto simp: dropna_def split: list.splits if_splits)

lemma target_neq [simp]:
  "target \<noteq> ''Date''" "target \<noteq> ''Region''" "''Date'' \<noteq> target" "''Region'' \<noteq> target"
  by (simp_all add: target_def)

lemma load_data_Inr:
  assumes "load_data P (Inr df0) = Inr out"
  shows "\<exists>df dates rates keep.
           name_target (tidy_columns df0) = Inr df \<and>
           map_of (cols df) ''Date'' = Some dates \<and>
           map_of (cols df) target = Some rates \<and>
           ''Region'' \<in> set (column_names df) \<and>
           keep = row_mask (setitem df ''Date'' (to_datetime dates)) [''Region'', ''Date''] \<and>
           index out = [0..<length (select keep (index df))] \<and>
           cols out = map (\<lambda>(n, cs). (n,
               if n = target then to_numeric P (select keep rates)
               else if n = ''Date'' then select keep (to_datetime dates)
               else select keep cs)) (cols df)"
proof -
  from assms obtain df where df: "name_target (tidy_columns df0) = Inr df"
    by (auto simp: load_data_def split: sum.splits)
  from assms df obtain dates where dates: "getitem df ''Date'' = Inr dates"
    by (auto simp: load_data_def split: sum.splits)
  define df1 where "df1 = setitem df ''Date'' (to_datetime dates)"
  from assms df dates obtain df' where df': "dropna df1 [''Region'', ''Date''] = Inr df'"
    by (auto simp: load_data_def df1_def split: sum.splits)
  from assms df dates df' obtain rates' where rates': "getitem df' target = Inr rates'"
    by (auto simp: load_data_def df1_def split: sum.splits)
  from assms df dates df' rates'
  have out: "out = reset_index (setitem df' target (to_numeric P rates'))"
    by (auto simp: load_data_def df1_def split: sum.splits)
  have date_in: "''Date'' \<in> set (column_names df)"
    using dates by (auto simp: getitem_Inr dest: map_of_names)
  have names1: "column_names df1 = column_names df"
    unfolding df1_def by (rule names_setitem[OF date_in])
  have cols1: "cols df1 = map (\<lambda>(m, cs). (m, if m = ''Date'' then to_datetime dates else cs)) (cols df)"
    unfolding df1_def by (rule cols_setitem[OF date_in])
  define keep where "keep = row_mask df1 [''Region'', ''Date'']"
  from df' have region_in: "''Region'' \<in> set (column_names df)"
    and df'_eq: "df' = \<lparr>index = select keep (index df1),
            cols = map (\<lambda>(n, cs). (n, select keep cs)) (cols df1)\<rparr>"
    by (simp_all add: dropna_two names1 keep_def)
  have cols': "cols df' = map (\<lambda>(n, cs). (n, if n = ''Date'' then select keep (to_datetime dates)
                  else select keep cs)) (cols df)"
    by (simp add: df'_eq cols1 case_prod_unfold comp_def if_distrib)
  have names': "column_names df' = column_names df"
    by (simp add: cols' column_names_def case_prod_unfold comp_def)
  from rates' have "map_of (cols df') target = Some rates'"
    by (simp add: getitem_Inr)
  then obtain rates where rates: "map_of (cols df) target = Some rates"
    and rates'_eq: "rates' = select keep rates"
    unfolding cols'
    by (auto simp: map_of_map_cols[of "\<lambda>n cs. if n = ''Date'' then select keep (to_datetime dates)
                  else select keep cs"])
  have target_in: "target \<in> set (column_names df')"
    using rates names' by (auto dest: map_of_names)
  have "cols out = map (\<lambda>(m, cs). (m, if m = target then to_numeric P rates' else cs)) (cols df')"
    unfolding out by (simp add: reset_index_def cols_setitem[OF target_in])
  then have cols_out: "cols out = map (\<lambda>(n, cs). (n,
               if n = target then to_numeric P (select keep rates)
               else if n = ''Date'' then select keep (to_datetime dates)
               else select keep cs)) (cols df)"
    by (simp add: cols' rates'_eq case_prod_unfold comp_def)
  have "index out = [0..<length (select keep (index df))]"
    unfolding out by (simp add: reset_index_def index_setitem df'_eq df1_def)
  with df dates rates region_in cols_out show ?thesis
    by (auto simp: getitem_Inr keep_def df1_def)
qed

section \<open>The rate column\<close>

lemma names_rename:
  "column_names (rename df old new) = map (\<lambda>n. if n = old then new else n) (column_names df)"
  by (simp add: rename_def column_names_def case_prod_unfold comp_def)

lemma map_of_relabel:
  "k \<noteq> old \<Longrightarrow> k \<noteq> new \<Longrightarrow>
   map_of (map (\<lambda>(n, cs). (if n = old then new else n, cs)) ps) k = map_of ps k"
  by (induction ps) auto

lemma map_of_rename:
  "k \<noteq> old \<Longrightarrow> k \<noteq> new \<Longrightarrow> map_of (cols (rename df old new)) k = map_of (cols df) k"
  by (simp add: rename_def map_of_relabel)

lemma first_match:
  assumes "names = pre @ m # post" "p m" "list_all (\<lambda>n. \<not> p n) pre"
  shows "filter p names = m # filter p post"
  using assms by (simp add: list_all_iff)

lemma rename_split:
  assumes "distinct (pre @ m # post)" "new \<notin> set (pre @ m # post)"
  shows "map (\<lambda>n. if n = m then new else n) (pre @ m # post) = pre @ new # post"
    and "distinct (pre @ new # post)"
  using assms by (auto intro!: map_idI)

lemma name_target_present:
  "target \<in> set (column_names df) \<Longrightarrow> name_target df = Inr df"
  by (simp add: name_target_def)

lemma name_target_fallback:
  assumes "target \<notin> set (column_names df)"
    and "column_names df = pre @ m # post"
    and "contains ''Unemployment Rate'' m"
    and "list_all (\<lambda>n. \<not> contains ''Unemployment Rate'' n) pre"
  shows "name_target df = Inr (rename df m target)"
  using assms(1) first_match[OF assms(2-4)] by (simp add: name_target_def)

lemma name_target_missing:
  assumes "target \<notin> set (column_names df)"
    and "list_all (\<lambda>n. \<not> contains ''Unemployment Rate'' n) (column_names df)"
  shows "name_target df = Inl (KeyError (Label ''Unemployment column not found in CSV''))"
proof -
  from assms(2) have "filter (contains ''Unemployment Rate'') (column_names df) = []"
    by (simp add: list_all_iff)
  with assms(1) show ?thesis by (simp add: name_target_def)
qed

lemma load_data_names:
  assumes "load_data P (Inr df0) = Inr out"
  shows "\<exists>df. name_target (tidy_columns df0) = Inr df \<and> column_names out = column_names df"
proof -
  from load_data_Inr[OF assms] obtain df dates rates keep where
    "name_target (tidy_columns df0) = Inr df"
    "cols out = map (\<lambda>(n, cs). (n,
               if n = target then to_numeric P (select keep rates)
               else if n = ''Date'' then select keep (to_datetime dates)
               else select keep cs)) (cols df)"
    by blast
  then show ?thesis by (auto simp: column_names_def case_prod_unfold comp_def)
qed

lemma load_data_name_target_Inl:
  "name_target (tidy_columns df0) = Inl e \<Longrightarrow> load_data P (Inr df0) = Inl e"
  by (simp add: load_data_def)

text \<open>
  C1. When no column is labelled \<open>target\<close> after the header has been tidied, the first
  column whose label contains \<^verbatim>\<open>Unemployment Rate\<close> is renamed to \<open>target\<close>, and a
  table that is returned carries the new label in its place; when no label contains it,
  \<open>load_data\<close> fails with the KeyError of line 28 and returns no table.
\<close>

theorem load_data_rate_column:
  assumes "target \<notin> set (column_names (tidy_columns df0))"
  shows "(\<forall>pre m post.
            column_names (tidy_columns df0) = pre @ m # post \<and>
            contains ''Unemployment Rate'' m \<and>
            list_all (\<lambda>n. \<not> contains ''Unemployment Rate'' n) pre \<longrightarrow>
            name_target (tidy_columns df0) = Inr (rename (tidy_columns df0) m target) \<and>
            column_names (rename (tidy_columns df0) m target) = pre @ target # post \<and>
            (\<forall>out. load_data num_of (Inr df0) = Inr out \<longrightarrow> column_names out = pre @ target # post))
       \<and> (list_all (\<lambda>n. \<not> contains ''Unemployment Rate'' n) (column_names (tidy_columns df0)) \<longrightarrow>
            load_data num_of (Inr df0) =
              Inl (KeyError (Label ''Unemployment column not found in CSV'')))"
proof (intro conjI allI impI)
  fix pre m post
  assume h: "column_names (tidy_columns df0) = pre @ m # post \<and>
            contains ''Unemployment Rate'' m \<and>
            list_all (\<lambda>n. \<not> contains ''Unemployment Rate'' n) pre"
  show step: "name_target (tidy_columns df0) = Inr (rename (tidy_columns df0) m target)"
    using name_target_fallback[OF assms] h by blast
  have d: "distinct (pre @ m # post)"
    using distinct_tidy_columns[of df0] h by simp
  have t: "target \<notin> set (pre @ m # post)"
    using assms h by simp
  show names: "column_names (rename (tidy_columns df0) m target) = pre @ target # post"
    using rename_split(1)[OF d t] h by (simp add: names_rename)
  fix out
  assume "load_data num_of (Inr df0) = Inr out"
  from load_data_names[OF this] step names show "column_names out = pre @ target # post"
    by auto
next
  assume "list_all (\<lambda>n. \<not> contains ''Unemployment Rate'' n) (column_names (tidy_columns df0))"
  from name_target_missing[OF assms this]
  show "load_data num_of (Inr df0) = Inl (KeyError (Label ''Unemployment column not found in CSV''))"
    by (rule load_data_name_target_Inl)
qed

lemmas frame_eval =
  load_data_def tidy_columns_def set_columns_def column_names_def strip_def is_space_def
  loc_columns_def duplicated_def name_target_def target_def rename_def getitem_def setitem_def
  to_datetime_def strptime_dmy_def partition_at_def digit_def valid_date_def days_in_month_def
  is_leap_def dropna_def row_mask_def notna_def column_def to_numeric_def reset_index_def Let_def

lemmas sample_eval = sample_csv_def sample_num_of_def sample_no_rate_def sample_named_def

theorem load_data_rate_column_witness:
  "target \<notin> set (column_names (tidy_columns sample_csv))
   \<and> column_names (tidy_columns sample_csv) =
       [''Region'', ''Date''] @ ''Estimated Unemployment Rate (%) original'' # [''Unemployment Rate 2'']
   \<and> contains ''Unemployment Rate'' ''Estimated Unemployment Rate (%) original''
   \<and> list_all (\<lambda>n. \<not> contains ''Unemployment Rate'' n) [''Region'', ''Date'']
   \<and> (\<exists>out. load_data sample_num_of (Inr sample_csv) = Inr out
          \<and> column_names out = [''Region'', ''Date''] @ target # [''Unemployment Rate 2''])
   \<and> target \<notin> set (column_names (tidy_columns sample_no_rate))
   \<and> list_all (\<lambda>n. \<not> contains ''Unemployment Rate'' n) (column_names (tidy_columns sample_no_rate))
   \<and> load_data sample_num_of (Inr sample_no_rate)
       = Inl (KeyError (Label ''Unemployment column not found in CSV''))"
  using load_data_rate_column[of sample_csv sample_num_of]
    load_data_rate_column[of sample_no_rate sample_num_of]
  by (simp add: frame_eval sample_eval)

text \<open>
  C10. When a column is labelled \<open>target\<close> already, line 25 skips the renaming, whatever
  the other labels contain, and a returned table has the tidied labels. When the search
  of line 26 is needed, the first match alone becomes \<open>target\<close>: the labels after it,
  matching or not, stay, each with its cells.
\<close>

theorem rename_precedence:
  "(target \<in> set (column_names (tidy_columns df0)) \<longrightarrow>
      name_target (tidy_columns df0) = Inr (tidy_columns df0) \<and>
      (\<forall>out. load_data num_of (Inr df0) = Inr out \<longrightarrow>
         column_names out = column_names (tidy_columns df0)))
   \<and> (target \<notin> set (column_names (tidy_columns df0)) \<and>
       column_names (tidy_columns df0) = pre @ m # post \<and>
       contains ''Unemployment Rate'' m \<and>
       list_all (\<lambda>n. \<not> contains ''Unemployment Rate'' n) pre \<longrightarrow>
      (\<exists>df. name_target (tidy_columns df0) = Inr df \<and>
         column_names df = pre @ target # post \<and>
         (\<forall>n \<in> set post. n \<in> set (column_names df) \<and>
            map_of (cols df) n = map_of (cols (tidy_columns df0)) n) \<and>
         (\<forall>out. load_data num_of (Inr df0) = Inr out \<longrightarrow>
            column_names out = pre @ target # post)))"
proof (rule conjI; rule impI)
  assume t: "target \<in> set (column_names (tidy_columns df0))"
  then have step: "name_target (tidy_columns df0) = Inr (tidy_columns df0)"
    by (rule name_target_present)
  show "name_target (tidy_columns df0) = Inr (tidy_columns df0) \<and>
      (\<forall>out. load_data num_of (Inr df0) = Inr out \<longrightarrow>
         column_names out = column_names (tidy_columns df0))"
    using step load_data_names[of num_of df0] by auto
next
  assume h: "target \<notin> set (column_names (tidy_columns df0)) \<and>
       column_names (tidy_columns df0) = pre @ m # post \<and>
       contains ''Unemployment Rate'' m \<and>
       list_all (\<lambda>n. \<not> contains ''Unemployment Rate'' n) pre"
  let ?df = "rename (tidy_columns df0) m target"
  have step: "name_target (tidy_columns df0) = Inr ?df"
    using name_target_fallback[of "tidy_columns df0" pre m post] h by blast
  have d: "distinct (pre @ m # post)"
    using distinct_tidy_columns[of df0] h by simp
  have t: "target \<notin> set (pre @ m # post)"
    using h by metis
  have names: "column_names ?df = pre @ target # post"
    using rename_split(1)[OF d t] h by (simp add: names_rename)
  have later: "\<forall>n \<in> set post. n \<in> set (column_names ?df) \<and>
            map_of (cols ?df) n = map_of (cols (tidy_columns df0)) n"
  proof
    fix n assume n: "n \<in> set post"
    with d have "n \<noteq> m" by auto
    moreover from n t have "n \<noteq> target" by auto
    ultimately show "n \<in> set (column_names ?df) \<and>
            map_of (cols ?df) n = map_of (cols (tidy_columns df0)) n"
      using n names by (simp add: map_of_rename)
  qed
  have "\<forall>out. load_data num_of (Inr df0) = Inr out \<longrightarrow> column_names out = pre @ target # post"
    using load_data_names[of num_of df0] step names by auto
  with step names later
  show "\<exists>df. name_target (tidy_columns df0) = Inr df \<and>
         column_names df = pre @ target # post \<and>
         (\<forall>n \<in> set post. n \<in> set (column_names df) \<and>
            map_of (cols df) n = map_of (cols (tidy_columns df0)) n) \<and>
         (\<forall>out. load_data num_of (Inr df0) = Inr out \<longrightarrow>
            column_names out = pre @ target # post)"
    by blast
qed

theorem rename_precedence_witness:
  "target \<in> set (column_names (tidy_columns sample_named))
   \<and> contains ''Unemployment Rate'' ''Old Unemployment Rate''
   \<and> name_target (tidy_columns sample_named) = Inr (tidy_columns sample_named)
   \<and> (\<exists>out. load_data sample_num_of (Inr sample_named) = Inr out \<and>
         column_names out = [''Region'', ''Date'', ''Old Unemployment Rate'', target])
   \<and> target \<notin> set (column_names (tidy_columns sample_csv))
   \<and> column_names (tidy_columns sample_csv) =
       [''Region'', ''Date''] @ ''Estimated Unemployment Rate (%) original'' # [''Unemployment Rate 2'']
   \<and> contains ''Unemployment Rate'' ''Estimated Unemployment Rate (%) original''
   \<and> contains ''Unemployment Rate'' ''Unemployment Rate 2''
   \<and> list_all (\<lambda>n. \<not> contains ''Unemployment Rate'' n) [''Region'', ''Date'']
   \<and> (\<exists>df. name_target (tidy_columns sample_csv) = Inr df \<and>
         column_names df = [''Region'', ''Date''] @ target # [''Unemployment Rate 2''] \<and>
         map_of (cols df) ''Unemployment Rate 2'' = Some [Str ''1'', NA, Str ''2'', Str ''3''])"
  using rename_precedence[where ?df0.0 = sample_named and num_of = sample_num_of]
    rename_precedence[where ?df0.0 = sample_csv and pre = "[''Region'', ''Date'']"
      and m = "''Estimated Unemployment Rate (%) original''"
      and post = "[''Unemployment Rate 2'']" and num_of = sample_num_of]
  by (simp add: frame_eval sample_eval)

section \<open>Rows and columns of a loaded table\<close>

lemma map_of_in_names:
  "n \<in> set (column_names df) \<Longrightarrow> \<exists>cs. map_of (cols df) n = Some cs"
  by (cases "map_of (cols df) n") (auto simp: column_names_def map_of_eq_None_iff)



lemma name_target_distinct:
  assumes "name_target df = Inr df'" "distinct (column_names df)"
  shows "distinct (column_names df')"
proof (cases "target \<in> set (column_names df)")
  case True
  with assms show ?thesis by (simp add: name_target_def)
next
  case False
  with assms(1) obtain m where df': "df' = rename df m target"
    by (auto simp: name_target_def split: list.splits)
  have "inj_on (\<lambda>n. if n = m then target else n) (set (column_names df))"
    using False by (auto simp: inj_on_def split: if_splits)
  with assms(2) show ?thesis
    unfolding df' names_rename by (simp add: distinct_map)
qed

lemma not_rate_Region: "\<not> contains ''Unemployment Rate'' ''Region''"
  by simp

lemma not_rate_Date: "\<not> contains ''Unemployment Rate'' ''Date''"
  by simp

lemma name_target_other:
  assumes "name_target df = Inr df'" "\<not> contains ''Unemployment Rate'' k" "k \<noteq> target"
  shows "map_of (cols df') k = map_of (cols df) k"
proof (cases "target \<in> set (column_names df)")
  case True
  with assms show ?thesis by (simp add: name_target_def)
next
  case False
  with assms obtain m ms where m: "filter (contains ''Unemployment Rate'') (column_names df) = m # ms"
    and df': "df' = rename df m target"
    by (auto simp: name_target_def split: list.splits)
  from m have "m \<in> set (filter (contains ''Unemployment Rate'') (column_names df))" by simp
  then have "contains ''Unemployment Rate'' m" by simp
  with assms(2) have "k \<noteq> m" by blast
  with assms(3) show ?thesis unfolding df' by (simp add: map_of_rename)
qed


lemma in_set_select:
  "x \<in> set (select keep xs) \<longleftrightarrow> (\<exists>i. i < length keep \<and> i < length xs \<and> keep ! i \<and> xs ! i = x)"
proof
  assume "x \<in> set (select keep xs)"
  then obtain b where "(b, x) \<in> set (zip keep xs)" "b"
    by (auto simp: select_def)
  then show "\<exists>i. i < length keep \<and> i < length xs \<and> keep ! i \<and> xs ! i = x"
    by (auto simp: in_set_zip)
next
  assume "\<exists>i. i < length keep \<and> i < length xs \<and> keep ! i \<and> xs ! i = x"
  then obtain i where i: "i < length keep" "i < length xs" "keep ! i" "xs ! i = x"
    by blast
  then have "(True, x) \<in> set (zip keep xs)"
    by (auto simp: in_set_zip intro!: exI[of _ i])
  then have "(True, x) \<in> set (filter fst (zip keep xs))" by simp
  then have "snd (True, x) \<in> snd ` set (filter fst (zip keep xs))" by (rule imageI)
  then show "x \<in> set (select keep xs)" by (simp add: select_def)
qed

lemma length_select:
  "length xs = length keep \<Longrightarrow> length (select keep xs) = length (filter id keep)"
  by (induction xs keep rule: list_induct2) simp_all

lemma rectangular_iff:
  "rectangular df \<longleftrightarrow> (\<forall>(n, cs) \<in> set (cols df). length cs = length (index df))"
  by (simp add: rectangular_def list_all_iff)

lemma index_tidy_columns: "index (tidy_columns df) = index df"
  by (simp add: tidy_columns_def set_columns_def loc_columns_def Let_def)

lemma rectangular_tidy_columns: "rectangular df \<Longrightarrow> rectangular (tidy_columns df)"
  unfolding rectangular_iff index_tidy_columns cols_tidy_columns
  using set_select_subset by fastforce

lemma name_target_cases:
  assumes "name_target df = Inr df'"
  obtains "df' = df" | m where "df' = rename df m target"
  using assms by (auto simp: name_target_def split: if_splits list.splits)

lemma index_name_target: "name_target df = Inr df' \<Longrightarrow> index df' = index df"
  by (erule name_target_cases) (simp_all add: rename_def)

lemma rectangular_name_target:
  "name_target df = Inr df' \<Longrightarrow> rectangular df \<Longrightarrow> rectangular df'"
  by (erule name_target_cases) (auto simp: rectangular_iff rename_def)

lemma column_eq: "map_of (cols df) n = Some cs \<Longrightarrow> column df n = cs"
  by (simp add: column_def)

lemma row_mask_two:
  assumes "length rs = length ix" "length ds = length ix"
  shows "map2 (\<and>) (notna rs) (map2 (\<and>) (notna ds) (replicate (length ix) True))
           = map2 (\<lambda>r d. r \<noteq> NA \<and> d \<noteq> NA) rs ds"
  using assms by (intro nth_equalityI) (simp_all add: notna_def)

lemma map2_to_datetime:
  "map2 (\<lambda>r d. r \<noteq> NA \<and> d \<noteq> NA) rs (to_datetime ds)
     = map2 (\<lambda>r d. r \<noteq> NA \<and> to_datetime_cell d \<noteq> NA) rs ds"
  by (simp add: to_datetime_def zip_map2 case_prod_unfold)

lemma names_name_target_distinct:
  "name_target (tidy_columns df0) = Inr df \<Longrightarrow> distinct (column_names df)"
  using distinct_tidy_columns by (rule name_target_distinct[rotated])

lemma map_of_distinct_cols:
  "distinct (column_names df) \<Longrightarrow> (n, cs) \<in> set (cols df) \<Longrightarrow> map_of (cols df) n = Some cs"
  by (simp add: column_names_def)

lemma map_of_length:
  "rectangular df \<Longrightarrow> map_of (cols df) n = Some cs \<Longrightarrow> length cs = length (index df)"
  by (auto simp: rectangular_iff dest: map_of_SomeD)

lemma load_data_rows:
  assumes "load_data P (Inr df0) = Inr out" and "rectangular df0"
  shows "\<exists>df regions dates keep.
           name_target (tidy_columns df0) = Inr df \<and>
           map_of (cols df) ''Region'' = Some regions \<and>
           map_of (cols df) ''Date'' = Some dates \<and>
           length regions = length (index df0) \<and>
           length dates = length (index df0) \<and>
           keep = map2 (\<lambda>r d. r \<noteq> NA \<and> to_datetime_cell d \<noteq> NA) regions dates \<and>
           index out = [0..<length (filter id keep)] \<and>
           cols out = map (\<lambda>(n, cs). (n, select keep
               (if n = target then to_numeric P cs
                else if n = ''Date'' then to_datetime cs else cs))) (cols df)"
proof -
  from load_data_Inr[OF assms(1)] obtain df dates rates where
    df: "name_target (tidy_columns df0) = Inr df"
    and dates: "map_of (cols df) ''Date'' = Some dates"
    and rates: "map_of (cols df) target = Some rates"
    and region_in: "''Region'' \<in> set (column_names df)"
    and ix: "index out = [0..<length (select
               (row_mask (setitem df ''Date'' (to_datetime dates)) [''Region'', ''Date''])
               (index df))]"
    and cs: "cols out = map (\<lambda>(n, cs). (n,
               if n = target then to_numeric P (select
                 (row_mask (setitem df ''Date'' (to_datetime dates)) [''Region'', ''Date'']) rates)
               else if n = ''Date'' then select
                 (row_mask (setitem df ''Date'' (to_datetime dates)) [''Region'', ''Date''])
                 (to_datetime dates)
               else select
                 (row_mask (setitem df ''Date'' (to_datetime dates)) [''Region'', ''Date'']) cs))
             (cols df)"
    by blast
  from region_in obtain regions where regions: "map_of (cols df) ''Region'' = Some regions"
    by (blast dest: map_of_in_names)
  have rect: "rectangular df"
    using df rectangular_tidy_columns[OF assms(2)] by (rule rectangular_name_target)
  have index_df: "index df = index df0"
    using index_name_target[OF df] by (simp add: index_tidy_columns)
  have len_r: "length regions = length (index df0)"
    using map_of_length[OF rect regions] index_df by simp
  have len_d: "length dates = length (index df0)"
    using map_of_length[OF rect dates] index_df by simp
  define df1 where "df1 = setitem df ''Date'' (to_datetime dates)"
  define keep where "keep = map2 (\<lambda>r d. r \<noteq> NA \<and> to_datetime_cell d \<noteq> NA) regions dates"
  have date_in: "''Date'' \<in> set (column_names df)"
    using dates by (rule map_of_names)
  have cols1: "cols df1 = map (\<lambda>(m, cs). (m, if m = ''Date'' then to_datetime dates else cs)) (cols df)"
    unfolding df1_def by (rule cols_setitem[OF date_in])
  have col_r: "column df1 ''Region'' = regions"
    by (rule column_eq)
      (simp add: cols1 regions map_of_map_cols[of "\<lambda>m cs. if m = ''Date'' then to_datetime dates else cs"])
  have col_d: "column df1 ''Date'' = to_datetime dates"
    by (rule column_eq)
      (simp add: cols1 dates map_of_map_cols[of "\<lambda>m cs. if m = ''Date'' then to_datetime dates else cs"])
  have index1: "index df1 = index df0"
    by (simp add: df1_def index_setitem index_df)
  have "row_mask df1 [''Region'', ''Date'']
          = map2 (\<lambda>r d. r \<noteq> NA \<and> d \<noteq> NA) regions (to_datetime dates)"
    unfolding row_mask_def using row_mask_two[of regions "index df0" "to_datetime dates"] len_r len_d
    by (simp add: col_r col_d index1 to_datetime_def)
  then have mask: "row_mask df1 [''Region'', ''Date''] = keep"
    by (simp add: map2_to_datetime keep_def)
  have len_keep: "length (index df) = length keep"
    by (simp add: keep_def len_r len_d index_df)
  have ix': "index out = [0..<length (filter id keep)]"
    using ix length_select[OF len_keep] by (simp add: mask[unfolded df1_def])
  have dist: "distinct (column_names df)"
    using df by (rule names_name_target_distinct)
  have "(case p of (n, cs) \<Rightarrow> (n,
               if n = target then to_numeric P (select keep rates)
               else if n = ''Date'' then select keep (to_datetime dates)
               else select keep cs))
        = (case p of (n, cs) \<Rightarrow> (n, select keep
               (if n = target then to_numeric P cs
                else if n = ''Date'' then to_datetime cs else cs)))"
    if "p \<in> set (cols df)" for p
  proof -
    obtain n cs where p: "p = (n, cs)" by (cases p)
    with that have "map_of (cols df) n = Some cs"
      using map_of_distinct_cols[OF dist] by simp
    with rates dates show ?thesis
      unfolding p by (auto simp: to_numeric_def select_map)
  qed
  then have "cols out = map (\<lambda>(n, cs). (n, select keep
               (if n = target then to_numeric P cs
                else if n = ''Date'' then to_datetime cs else cs))) (cols df)"
    unfolding cs mask[unfolded df1_def] by (intro map_cong refl)
  with df regions dates len_r len_d ix' show ?thesis
    unfolding keep_def by blast
qed

lemma select_upt_from:
  "select keep [k..<k + length keep] = map (\<lambda>i. k + i) (filter ((!) keep) [0..<length keep])"
proof (induction keep arbitrary: k)
  case Nil
  then show ?case by simp
next
  case (Cons b bs)
  have upt: "[k..<k + length (b # bs)] = k # [Suc k..<Suc k + length bs]"
    using upt_conv_Cons[of k "k + length (b # bs)"] by simp
  have upt0: "[0..<length (b # bs)] = 0 # map Suc [0..<length bs]"
    using upt_conv_Cons[of 0 "length (b # bs)"] by (simp add: map_Suc_upt del: upt_Suc)
  show ?case
    unfolding upt upt0 using Cons.IH[of "Suc k"]
    by (simp add: filter_map comp_def)
qed

lemma select_upt:
  "select keep [0..<length keep] = filter ((!) keep) [0..<length keep]"
  using select_upt_from[of keep 0] by simp

lemma select_positions:
  assumes "length xs = length keep"
  shows "select keep xs = map ((!) xs) (filter ((!) keep) [0..<length keep])"
proof -
  have "map ((!) xs) [0..<length keep] = xs"
    using assms map_nth[of xs] by simp
  then have "select keep xs = select keep (map ((!) xs) [0..<length keep])"
    by simp
  then show ?thesis by (simp only: select_map select_upt)
qed

lemma kept_positions:
  assumes "length rs = n" "length ds = n"
  shows "filter ((!) (map2 f rs ds)) [0..<length (map2 f rs ds)]
           = filter (\<lambda>i. f (rs ! i) (ds ! i)) [0..<n]"
  using assms by (auto intro: filter_cong)

lemma length_filter_id: "length (filter id keep) = length (filter ((!) keep) [0..<length keep])"
  using length_select[of "[0..<length keep]" keep] by (simp add: select_upt)

lemma load_data_kept:
  assumes "load_data P (Inr df0) = Inr out" and "rectangular df0"
  shows "\<exists>df regions dates kept.
           name_target (tidy_columns df0) = Inr df \<and>
           map_of (cols df) ''Region'' = Some regions \<and>
           map_of (cols df) ''Date'' = Some dates \<and>
           kept = filter (\<lambda>i. regions ! i \<noteq> NA \<and> to_datetime_cell (dates ! i) \<noteq> NA)
                    [0..<length (index df0)] \<and>
           index out = [0..<length kept] \<and>
           cols out = map (\<lambda>(n, cs). (n, map (\<lambda>i.
               if n = target then to_numeric_cell P (cs ! i)
               else if n = ''Date'' then to_datetime_cell (cs ! i) else cs ! i) kept)) (cols df)"
proof -
  from load_data_rows[OF assms] obtain df regions dates where
    df: "name_target (tidy_columns df0) = Inr df"
    and regions: "map_of (cols df) ''Region'' = Some regions"
    and dates: "map_of (cols df) ''Date'' = Some dates"
    and len_r: "length regions = length (index df0)"
    and len_d: "length dates = length (index df0)"
    and ix: "index out = [0..<length (filter id
               (map2 (\<lambda>r d. r \<noteq> NA \<and> to_datetime_cell d \<noteq> NA) regions dates))]"
    and cs: "cols out = map (\<lambda>(n, cs). (n, select
               (map2 (\<lambda>r d. r \<noteq> NA \<and> to_datetime_cell d \<noteq> NA) regions dates)
               (if n = target then to_numeric P cs
                else if n = ''Date'' then to_datetime cs else cs))) (cols df)"
    by blast
  define keep where "keep = map2 (\<lambda>r d. r \<noteq> NA \<and> to_datetime_cell d \<noteq> NA) regions dates"
  define kept where "kept = filter (\<lambda>i. regions ! i \<noteq> NA \<and> to_datetime_cell (dates ! i) \<noteq> NA)
                    [0..<length (index df0)]"
  have len_keep: "length keep = length (index df0)"
    by (simp add: keep_def len_r len_d)
  have pos: "filter ((!) keep) [0..<length keep] = kept"
    unfolding keep_def kept_def by (rule kept_positions[OF len_r len_d])
  have ix': "index out = [0..<length kept]"
    using ix length_filter_id[of keep] by (simp add: keep_def[symmetric] pos)
  have rect: "rectangular df"
    using df rectangular_tidy_columns[OF assms(2)] by (rule rectangular_name_target)
  have index_df: "index df = index df0"
    using index_name_target[OF df] by (simp add: index_tidy_columns)
  have bound: "i < length (index df0)" if "i \<in> set kept" for i
    using that by (simp add: kept_def)
  have "(case p of (n, cs) \<Rightarrow> (n, select keep
               (if n = target then to_numeric P cs
                else if n = ''Date'' then to_datetime cs else cs)))
        = (case p of (n, cs) \<Rightarrow> (n, map (\<lambda>i.
               if n = target then to_numeric_cell P (cs ! i)
               else if n = ''Date'' then to_datetime_cell (cs ! i) else cs ! i) kept))"
    if "p \<in> set (cols df)" for p
  proof -
    obtain n cs where p: "p = (n, cs)" by (cases p)
    with that rect have len: "length cs = length keep"
      by (auto simp: rectangular_iff index_df len_keep)
    have "select keep (map f cs) = map (\<lambda>i. f (cs ! i)) kept" for f :: "cell \<Rightarrow> cell"
    proof -
      have "select keep (map f cs) = map ((!) (map f cs)) kept"
        using select_positions[of "map f cs" keep] len by (simp add: pos)
      also have "\<dots> = map (\<lambda>i. f (cs ! i)) kept"
        using bound len len_keep by (intro map_cong refl) simp
      finally show ?thesis .
    qed
    from this[of "to_numeric_cell P"] this[of to_datetime_cell] this[of "\<lambda>c. c"]
    show ?thesis unfolding p by (simp add: to_numeric_def to_datetime_def)
  qed
  then have "cols out = map (\<lambda>(n, cs). (n, map (\<lambda>i.
               if n = target then to_numeric_cell P (cs ! i)
               else if n = ''Date'' then to_datetime_cell (cs ! i) else cs ! i) kept)) (cols df)"
    unfolding cs keep_def[symmetric] by (intro map_cong refl)
  with df regions dates ix' show ?thesis
    unfolding kept_def by blast
qed

lemma load_data_Inl_indep:
  "load_data P csv = Inl e \<Longrightarrow> load_data P' csv = Inl e"
  by (auto simp: load_data_def split: sum.splits)

section \<open>The header\<close>

lemma load_sample_csv: "load_data sample_num_of (Inr sample_csv) = Inr sample_table"
  by (simp add: frame_eval sample_eval sample_table_def)

lemma rectangular_sample_csv: "rectangular sample_csv"
  by (simp add: rectangular_def sample_csv_def)

lemma load_data_Region_column:
  assumes "load_data P (Inr df0) = Inr out"
  shows "\<exists>keep rs. map_of (map (\<lambda>(n, cs). (strip n, cs)) (cols df0)) ''Region'' = Some rs \<and>
           map_of (cols out) ''Region'' = Some (select keep rs)"
proof -
  from load_data_Inr[OF assms] obtain df dates rates keep where
    df: "name_target (tidy_columns df0) = Inr df"
    and region: "''Region'' \<in> set (column_names df)"
    and cols_out: "cols out = map (\<lambda>(n, cs). (n,
               if n = target then to_numeric P (select keep rates)
               else if n = ''Date'' then select keep (to_datetime dates)
               else select keep cs)) (cols df)"
    by blast
  from region obtain rs where rs: "map_of (cols df) ''Region'' = Some rs"
    by (blast dest: map_of_in_names)
  have "map_of (cols out) ''Region'' = Some (select keep rs)"
    unfolding cols_out
    by (simp add: rs map_of_map_cols[of "\<lambda>n cs. if n = target then to_numeric P (select keep rates)
               else if n = ''Date'' then select keep (to_datetime dates)
               else select keep cs"])
  moreover have "map_of (cols df) ''Region'' = map_of (cols (tidy_columns df0)) ''Region''"
    using df not_rate_Region by (rule name_target_other) simp
  then have "map_of (map (\<lambda>(n, cs). (strip n, cs)) (cols df0)) ''Region'' = Some rs"
    using rs by (simp add: map_of_tidy_columns)
  ultimately show ?thesis by blast
qed




section \<open>Rows with a null Region or Date\<close>

lemma map_of_mapped_cols:
  "map_of (cols df) k = Some cs \<Longrightarrow>
   map_of (map (\<lambda>(n, cs). (n, f n cs)) (cols df)) k = Some (f k cs)"
  by (simp add: map_of_map_cols)

text \<open>
  C2. For a rectangular parsed file, the rows of the returned table are the rows of the
  file at the positions \<open>kept\<close>: those whose Region is not null and whose Date parses.
  So a row with a null Region or a null Date, a blank row among them, is in no column of
  the table, and neither the Region nor the Date column of the table holds a null.
\<close>

theorem load_data_non_null:
  assumes "load_data num_of (Inr df0) = Inr out" and "rectangular df0"
  shows "\<exists>df regions dates kept.
           name_target (tidy_columns df0) = Inr df \<and>
           map_of (cols df) ''Region'' = Some regions \<and>
           map_of (cols df) ''Date'' = Some dates \<and>
           kept = filter (\<lambda>i. regions ! i \<noteq> NA \<and> to_datetime_cell (dates ! i) \<noteq> NA)
                    [0..<length (index df0)] \<and>
           index out = [0..<length kept] \<and>
           list_all (\<lambda>(n, cs). length cs = length kept) (cols out) \<and>
           map_of (cols out) ''Region'' = Some (map (\<lambda>i. regions ! i) kept) \<and>
           map_of (cols out) ''Date'' = Some (map (\<lambda>i. to_datetime_cell (dates ! i)) kept) \<and>
           NA \<notin> set (map (\<lambda>i. regions ! i) kept) \<and>
           NA \<notin> set (map (\<lambda>i. to_datetime_cell (dates ! i)) kept)"
proof -
  from load_data_kept[OF assms] obtain df regions dates kept where
    df: "name_target (tidy_columns df0) = Inr df"
    and regions: "map_of (cols df) ''Region'' = Some regions"
    and dates: "map_of (cols df) ''Date'' = Some dates"
    and kept: "kept = filter (\<lambda>i. regions ! i \<noteq> NA \<and> to_datetime_cell (dates ! i) \<noteq> NA)
                    [0..<length (index df0)]"
    and ix: "index out = [0..<length kept]"
    and cs: "cols out = map (\<lambda>(n, cs). (n, map (\<lambda>i.
               if n = target then to_numeric_cell num_of (cs ! i)
               else if n = ''Date'' then to_datetime_cell (cs ! i) else cs ! i) kept)) (cols df)"
    by blast
  have len: "list_all (\<lambda>(n, cs). length cs = length kept) (cols out)"
    unfolding cs by (simp add: list_all_iff case_prod_unfold)
  have r: "map_of (cols out) ''Region'' = Some (map (\<lambda>i. regions ! i) kept)"
    unfolding cs
    using map_of_mapped_cols[OF regions, of "\<lambda>n cs. map (\<lambda>i.
               if n = target then to_numeric_cell num_of (cs ! i)
               else if n = ''Date'' then to_datetime_cell (cs ! i) else cs ! i) kept"]
    by simp
  have d: "map_of (cols out) ''Date'' = Some (map (\<lambda>i. to_datetime_cell (dates ! i)) kept)"
    unfolding cs
    using map_of_mapped_cols[OF dates, of "\<lambda>n cs. map (\<lambda>i.
               if n = target then to_numeric_cell num_of (cs ! i)
               else if n = ''Date'' then to_datetime_cell (cs ! i) else cs ! i) kept"]
    by simp
  have nr: "NA \<notin> set (map (\<lambda>i. regions ! i) kept)"
    unfolding kept by auto
  have nd: "NA \<notin> set (map (\<lambda>i. to_datetime_cell (dates ! i)) kept)"
    unfolding kept by auto
  from df regions dates kept ix len r d nr nd show ?thesis by blast
qed

theorem load_data_non_null_witness:
  "rectangular sample_csv \<and>
   load_data sample_num_of (Inr sample_csv) = Inr sample_table \<and>
   index sample_csv = [0, 1, 2, 3] \<and> index sample_table = [0, 1] \<and>
   (\<exists>regions dates.
      map_of (cols sample_table) ''Region'' = Some regions \<and>
      map_of (cols sample_table) ''Date'' = Some dates \<and>
      NA \<notin> set regions \<and> NA \<notin> set dates)"
proof -
  from load_data_non_null[OF load_sample_csv rectangular_sample_csv]
  obtain regions dates where
    "map_of (cols sample_table) ''Region'' = Some regions"
    "map_of (cols sample_table) ''Date'' = Some dates"
    "NA \<notin> set regions" "NA \<notin> set dates"
    by blast
  moreover have "index sample_csv = [0, 1, 2, 3]" "index sample_table = [0, 1]"
    by (simp_all add: sample_csv_def sample_table_def)
  ultimately show ?thesis
    using rectangular_sample_csv load_sample_csv by blast
qed

section \<open>Dates and rates\<close>








lemma load_data_target_column:
  assumes "load_data P (Inr df0) = Inr out" and "rectangular df0"
  shows "\<exists>df regions dates rates kept.
           name_target (tidy_columns df0) = Inr df \<and>
           map_of (cols df) ''Region'' = Some regions \<and>
           map_of (cols df) ''Date'' = Some dates \<and>
           map_of (cols df) target = Some rates \<and>
           kept = filter (\<lambda>i. regions ! i \<noteq> NA \<and> to_datetime_cell (dates ! i) \<noteq> NA)
                    [0..<length (index df0)] \<and>
           index out = [0..<length kept] \<and>
           map_of (cols out) ''Date'' = Some (map (\<lambda>i. to_datetime_cell (dates ! i)) kept) \<and>
           map_of (cols out) target = Some (map (\<lambda>i. to_numeric_cell P (rates ! i)) kept)"
proof -
  from load_data_kept[OF assms] obtain df regions dates kept where
    df: "name_target (tidy_columns df0) = Inr df"
    and regions: "map_of (cols df) ''Region'' = Some regions"
    and dates: "map_of (cols df) ''Date'' = Some dates"
    and kept: "kept = filter (\<lambda>i. regions ! i \<noteq> NA \<and> to_datetime_cell (dates ! i) \<noteq> NA)
                    [0..<length (index df0)]"
    and ix: "index out = [0..<length kept]"
    and cs: "cols out = map (\<lambda>(n, cs). (n, map (\<lambda>i.
               if n = target then to_numeric_cell P (cs ! i)
               else if n = ''Date'' then to_datetime_cell (cs ! i) else cs ! i) kept)) (cols df)"
    by blast
  from load_data_Inr[OF assms(1)] df obtain rates where
    rates: "map_of (cols df) target = Some rates"
    by auto
  have d: "map_of (cols out) ''Date'' = Some (map (\<lambda>i. to_datetime_cell (dates ! i)) kept)"
    unfolding cs
    using map_of_mapped_cols[OF dates, of "\<lambda>n cs. map (\<lambda>i.
               if n = target then to_numeric_cell P (cs ! i)
               else if n = ''Date'' then to_datetime_cell (cs ! i) else cs ! i) kept"]
    by simp
  have t: "map_of (cols out) target = Some (map (\<lambda>i. to_numeric_cell P (rates ! i)) kept)"
    unfolding cs
    using map_of_mapped_cols[OF rates, of "\<lambda>n cs. map (\<lambda>i.
               if n = target then to_numeric_cell P (cs ! i)
               else if n = ''Date'' then to_datetime_cell (cs ! i) else cs ! i) kept"]
    by simp
  from df regions dates rates kept ix d t show ?thesis by blast
qed



lemma to_numeric_cell_cases:
  "to_numeric_cell P c = NA \<or> (\<exists>r. to_numeric_cell P c = Num r)"
  by (cases c) (auto split: option.splits)

lemma load_data_Inl_iff: "load_data P csv = Inl e \<longleftrightarrow> load_data P' csv = Inl e"
  using load_data_Inl_indep[of P csv e P'] load_data_Inl_indep[of P' csv e P] by blast

text \<open>
  C7. The conversion of the rate column gives a number or a null for every cell, a null
  where the library's conversion fails, and raises nothing: whether \<open>load_data\<close> fails,
  and with which error, does not depend on the conversion. The rows of the returned
  table are chosen by Region and Date alone, so a row with both and a rate that is
  no number is kept, with a null rate.
\<close>

theorem to_numeric_coerces:
  "(\<forall>c. to_numeric_cell num_of c = NA \<or> (\<exists>r. to_numeric_cell num_of c = Num r)) \<and>
   (\<forall>s. num_of (Str s) = None \<longrightarrow> to_numeric_cell num_of (Str s) = NA) \<and>
   (\<forall>csv e num_of'. load_data num_of csv = Inl e \<longleftrightarrow> load_data num_of' csv = Inl e) \<and>
   (\<forall>df0 out. load_data num_of (Inr df0) = Inr out \<and> rectangular df0 \<longrightarrow>
      (\<exists>df regions dates rates kept.
         name_target (tidy_columns df0) = Inr df \<and>
         map_of (cols df) ''Region'' = Some regions \<and>
         map_of (cols df) ''Date'' = Some dates \<and>
         map_of (cols df) target = Some rates \<and>
         kept = filter (\<lambda>i. regions ! i \<noteq> NA \<and> to_datetime_cell (dates ! i) \<noteq> NA)
                  [0..<length (index df0)] \<and>
         index out = [0..<length kept] \<and>
         map_of (cols out) target = Some (map (\<lambda>i. to_numeric_cell num_of (rates ! i)) kept) \<and>
         (\<forall>i < length (index df0).
            regions ! i \<noteq> NA \<and> to_datetime_cell (dates ! i) \<noteq> NA \<and>
            to_numeric_cell num_of (rates ! i) = NA \<longrightarrow> i \<in> set kept)))"
proof -
  have a: "\<forall>c. to_numeric_cell num_of c = NA \<or> (\<exists>r. to_numeric_cell num_of c = Num r)"
    using to_numeric_cell_cases by blast
  have b: "\<forall>s. num_of (Str s) = None \<longrightarrow> to_numeric_cell num_of (Str s) = NA"
    by simp
  have c: "\<forall>csv e num_of'. load_data num_of csv = Inl e \<longleftrightarrow> load_data num_of' csv = Inl e"
    using load_data_Inl_iff by blast
  have d: "\<exists>df regions dates rates kept.
         name_target (tidy_columns df0) = Inr df \<and>
         map_of (cols df) ''Region'' = Some regions \<and>
         map_of (cols df) ''Date'' = Some dates \<and>
         map_of (cols df) target = Some rates \<and>
         kept = filter (\<lambda>i. regions ! i \<noteq> NA \<and> to_datetime_cell (dates ! i) \<noteq> NA)
                  [0..<length (index df0)] \<and>
         index out = [0..<length kept] \<and>
         map_of (cols out) target = Some (map (\<lambda>i. to_numeric_cell num_of (rates ! i)) kept) \<and>
         (\<forall>i < length (index df0).
            regions ! i \<noteq> NA \<and> to_datetime_cell (dates ! i) \<noteq> NA \<and>
            to_numeric_cell num_of (rates ! i) = NA \<longrightarrow> i \<in> set kept)"
    if h: "load_data num_of (Inr df0) = Inr out \<and> rectangular df0" for df0 out
  proof -
    from h have h1: "load_data num_of (Inr df0) = Inr out" and h2: "rectangular df0"
      by simp_all
    from load_data_target_column[OF h1 h2] obtain df regions dates rates kept where
      f: "name_target (tidy_columns df0) = Inr df"
        "map_of (cols df) ''Region'' = Some regions"
        "map_of (cols df) ''Date'' = Some dates"
        "map_of (cols df) target = Some rates"
        "kept = filter (\<lambda>i. regions ! i \<noteq> NA \<and> to_datetime_cell (dates ! i) \<noteq> NA)
                  [0..<length (index df0)]"
        "index out = [0..<length kept]"
        "map_of (cols out) target = Some (map (\<lambda>i. to_numeric_cell num_of (rates ! i)) kept)"
      by blast
    have "\<forall>i < length (index df0).
            regions ! i \<noteq> NA \<and> to_datetime_cell (dates ! i) \<noteq> NA \<and>
            to_numeric_cell num_of (rates ! i) = NA \<longrightarrow> i \<in> set kept"
      unfolding f(5) by simp
    with f show ?thesis by blast
  qed
  from a b c d show ?thesis by blast
qed

theorem to_numeric_coerces_witness:
  "sample_num_of (Str ''n/a'') = None \<and>
   to_numeric_cell sample_num_of (Str ''n/a'') = NA \<and>
   load_data sample_num_of (Inr sample_csv) = Inr sample_table \<and> rectangular sample_csv \<and>
   map_of (cols (tidy_columns sample_csv)) ''Estimated Unemployment Rate (%) original''
     = Some [Str ''5.5'', NA, Str ''3'', Str ''n/a''] \<and>
   map_of (cols sample_table) ''Region'' = Some [Str ''Goa'', Str ''Delhi''] \<and>
   map_of (cols sample_table) target = Some [Num (11 / 2), NA] \<and>
   (\<exists>rates kept.
      map_of (cols sample_table) target
        = Some (map (\<lambda>i. to_numeric_cell sample_num_of (rates ! i)) kept) \<and>
      index sample_table = [0..<length kept])"
proof -
  note t = to_numeric_coerces[of sample_num_of]
  have n: "sample_num_of (Str ''n/a'') = None"
    by (simp add: sample_num_of_def)
  with t have "to_numeric_cell sample_num_of (Str ''n/a'') = NA"
    by blast
  moreover from t load_sample_csv rectangular_sample_csv
  have "\<exists>rates kept.
      map_of (cols sample_table) target
        = Some (map (\<lambda>i. to_numeric_cell sample_num_of (rates ! i)) kept) \<and>
      index sample_table = [0..<length kept]"
    by blast
  moreover have "map_of (cols (tidy_columns sample_csv)) ''Estimated Unemployment Rate (%) original''
     = Some [Str ''5.5'', NA, Str ''3'', Str ''n/a'']"
    by (simp add: frame_eval sample_eval)
  moreover have "map_of (cols sample_table) ''Region'' = Some [Str ''Goa'', Str ''Delhi'']"
    "map_of (cols sample_table) target = Some [Num (11 / 2), NA]"
    by (simp_all add: sample_table_def target_def)
  ultimately show ?thesis
    using n load_sample_csv rectangular_sample_csv by blast
qed

section \<open>Metrics and the cache\<close>









section \<open>The trend section\<close>

lemma load_data_columns:
  assumes "load_data P (Inr df0) = Inr out"
  shows "\<exists>rs ds vs. map_of (cols out) ''Region'' = Some rs \<and>
           map_of (cols out) ''Date'' = Some ds \<and> map_of (cols out) unemp_col = Some vs"
proof -
  from load_data_Inr[OF assms] obtain df :: frame and dates rates keep where
    dates: "map_of (cols df) ''Date'' = Some dates"
    and rates: "map_of (cols df) target = Some rates"
    and cs: "cols out = map (\<lambda>(n, cs). (n,
               if n = target then to_numeric P (select keep rates)
               else if n = ''Date'' then select keep (to_datetime dates)
               else select keep cs)) (cols df)"
    by auto
  have u: "unemp_col = target" by (simp add: unemp_col_def target_def)
  from load_data_Region_column[OF assms] obtain rs where "map_of (cols out) ''Region'' = Some rs"
    by blast
  moreover have "\<exists>ds. map_of (cols out) ''Date'' = Some ds"
    unfolding cs
    using map_of_mapped_cols[OF dates, of "\<lambda>n cs. if n = target then to_numeric P (select keep rates)
               else if n = ''Date'' then select keep (to_datetime dates)
               else select keep cs"]
    by simp
  moreover have "\<exists>vs. map_of (cols out) unemp_col = Some vs"
    unfolding cs u
    using map_of_mapped_cols[OF rates, of "\<lambda>n cs. if n = target then to_numeric P (select keep rates)
               else if n = ''Date'' then select keep (to_datetime dates)
               else select keep cs"]
    by simp
  ultimately show ?thesis by blast
qed

lemma map_of_rows_where:
  "map_of (cols (rows_where df keep)) n = map_option (select keep) (map_of (cols df) n)"
  unfolding rows_where_def using map_of_map_cols[of "\<lambda>n cs. select keep cs" "cols df" n] by simp

lemma region_trend_cases:
  assumes "map_of (cols df) ''Region'' = Some rs"
    and "map_of (cols df) ''Date'' = Some ds"
    and "map_of (cols df) unemp_col = Some vs"
  shows "region_df df region = Inr (rows_where df (eq_mask rs region)) \<and>
         (empty (rows_where df (eq_mask rs region)) \<longleftrightarrow>
            select (eq_mask rs region) (index df) = []) \<and>
         (empty (rows_where df (eq_mask rs region)) \<longrightarrow>
            region_trend df region =
              Inr [Subheader region, Warning ''No data available for the selected region.'']) \<and>
         (\<not> empty (rows_where df (eq_mask rs region)) \<longrightarrow>
            region_trend df region =
              Inr [Subheader region,
                   Plotly_chart
                     \<lparr>points = zip (select (eq_mask rs region) ds) (select (eq_mask rs region) vs),
                      title_region = region, markers = True,
                      shapes = [Dashed_vline ''2020-03-01''],
                      annotations = [Note ''2020-03-01'' ''Lockdown start'']\<rparr>])"
proof -
  let ?rdf = "rows_where df (eq_mask rs region)"
  have r: "region_df df region = Inr ?rdf"
    using assms(1) by (simp add: region_df_def getitem_def)
  have ne: "cols df \<noteq> []"
    using assms(1) by auto
  have e: "empty ?rdf \<longleftrightarrow> select (eq_mask rs region) (index df) = []"
    using ne by (simp add: empty_def rows_where_def)
  have px: "px_line ?rdf ''Date'' unemp_col region True =
      Inr \<lparr>points = zip (select (eq_mask rs region) ds) (select (eq_mask rs region) vs),
           title_region = region, markers = True, shapes = [], annotations = []\<rparr>"
    using assms(2,3) by (simp add: px_line_def getitem_def map_of_rows_where)
  show ?thesis
    using r e by (simp add: region_trend_def px add_lockdown_vline_def)
qed

text \<open>
  C9. For a loaded table and any selection, the trend section raises nothing: filtering by
  Region gives a table; when it has no row the section is the subheader and the warning,
  with no chart, and otherwise it is the subheader and the line chart of the filtered
  rows with the lockdown line.
\<close>

theorem region_trend_empty_selection:
  assumes "load_data num_of (Inr df0) = Inr df"
  shows "\<exists>rdf. region_df df region = Inr rdf \<and>
           (empty rdf \<longleftrightarrow> index rdf = []) \<and>
           (empty rdf \<longrightarrow>
              region_trend df region =
                Inr [Subheader region, Warning ''No data available for the selected region.'']) \<and>
           (\<not> empty rdf \<longrightarrow>
              (\<exists>fig. px_line rdf ''Date'' unemp_col region True = Inr fig \<and>
                 region_trend df region =
                   Inr [Subheader region, Plotly_chart (add_lockdown_vline fig ''2020-03-01'')]))"
proof -
  from load_data_columns[OF assms] obtain rs ds vs where
    c: "map_of (cols df) ''Region'' = Some rs" "map_of (cols df) ''Date'' = Some ds"
       "map_of (cols df) unemp_col = Some vs"
    by blast
  let ?rdf = "rows_where df (eq_mask rs region)"
  note t = region_trend_cases[OF c, of region]
  have px: "px_line ?rdf ''Date'' unemp_col region True =
      Inr \<lparr>points = zip (select (eq_mask rs region) ds) (select (eq_mask rs region) vs),
           title_region = region, markers = True, shapes = [], annotations = []\<rparr>"
    using c(2,3) by (simp add: px_line_def getitem_def map_of_rows_where)
  have ix: "index ?rdf = select (eq_mask rs region) (index df)"
    by (simp add: rows_where_def)
  have "region_df df region = Inr ?rdf" using t by blast
  moreover have "empty ?rdf \<longleftrightarrow> index ?rdf = []" using t ix by simp
  moreover have "empty ?rdf \<longrightarrow> region_trend df region =
                Inr [Subheader region, Warning ''No data available for the selected region.'']"
    using t by blast
  moreover have "\<not> empty ?rdf \<longrightarrow>
              (\<exists>fig. px_line ?rdf ''Date'' unemp_col region True = Inr fig \<and>
                 region_trend df region =
                   Inr [Subheader region, Plotly_chart (add_lockdown_vline fig ''2020-03-01'')])"
    using t px by (simp add: add_lockdown_vline_def)
  ultimately show ?thesis by blast
qed

lemmas view_eval = region_trend_def region_df_def getitem_def rows_where_def eq_mask_def
  empty_def px_line_def add_lockdown_vline_def unemp_col_def sample_table_def

theorem region_trend_empty_selection_witness:
  "load_data sample_num_of (Inr sample_csv) = Inr sample_table \<and>
   region_trend sample_table (Str ''Kerala'') =
     Inr [Subheader (Str ''Kerala''), Warning ''No data available for the selected region.''] \<and>
   region_trend sample_table NA =
     Inr [Subheader NA, Warning ''No data available for the selected region.''] \<and>
   region_trend sample_table (Str ''Goa'') =
     Inr [Subheader (Str ''Goa''),
          Plotly_chart \<lparr>points = [(Ts (2020, 3, 1), Num (11 / 2))], title_region = Str ''Goa'',
            markers = True, shapes = [Dashed_vline ''2020-03-01''],
            annotations = [Note ''2020-03-01'' ''Lockdown start'']\<rparr>] \<and>
   (\<exists>rdf. region_df sample_table (Str ''Kerala'') = Inr rdf \<and> empty rdf) \<and>
   (\<exists>rdf. region_df sample_table (Str ''Goa'') = Inr rdf \<and> \<not> empty rdf)"
proof -
  have k: "region_df sample_table (Str ''Kerala'') = Inr \<lparr>index = [],
      cols = [(''Region'', []), (''Date'', []), (''Estimated Unemployment Rate (%)'', []),
              (''Unemployment Rate 2'', [])]\<rparr>"
    by (simp add: view_eval)
  have g: "region_df sample_table (Str ''Goa'') = Inr \<lparr>index = [0],
      cols = [(''Region'', [Str ''Goa'']), (''Date'', [Ts (2020, 3, 1)]),
              (''Estimated Unemployment Rate (%)'', [Num (11 / 2)]),
              (''Unemployment Rate 2'', [Str ''1''])]\<rparr>"
    by (simp add: view_eval)
  from region_trend_empty_selection[OF load_sample_csv, of "Str ''Kerala''"] k
  have 1: "region_trend sample_table (Str ''Kerala'') =
     Inr [Subheader (Str ''Kerala''), Warning ''No data available for the selected region.'']"
    by (simp add: empty_def)
  from region_trend_empty_selection[OF load_sample_csv, of "Str ''Goa''"] g
  have 2: "region_trend sample_table (Str ''Goa'') =
     Inr [Subheader (Str ''Goa''),
          Plotly_chart \<lparr>points = [(Ts (2020, 3, 1), Num (11 / 2))], title_region = Str ''Goa'',
            markers = True, shapes = [Dashed_vline ''2020-03-01''],
            annotations = [Note ''2020-03-01'' ''Lockdown start'']\<rparr>]"
    by (simp add: empty_def px_line_def getitem_def unemp_col_def add_lockdown_vline_def)
  have 3: "region_trend sample_table NA =
     Inr [Subheader NA, Warning ''No data available for the selected region.'']"
    by (simp add: view_eval)
  from k have 4: "\<exists>rdf. region_df sample_table (Str ''Kerala'') = Inr rdf \<and> empty rdf"
    by (simp add: empty_def)
  from g have 5: "\<exists>rdf. region_df sample_table (Str ''Goa'') = Inr rdf \<and> \<not> empty rdf"
    by (simp add: empty_def)
  from load_sample_csv 1 2 3 4 5 show ?thesis by blast
qed

section \<open>The averages by region\<close>









end
